theory Spec2Isabelle
  imports Complex_Main "HOL-Library.Word"
begin

section \<open>Python values and exceptions\<close>

text \<open>
  The bindings are Python classes around a C library reached through cffi.  Exceptions are
  values: every function that can raise returns \<open>py_error + 'a\<close>, with \<open>Inl\<close> the exception.
  The classes of \<^verbatim>\<open>utils/error.py\<close> are constructors of their own, so that the class chosen
  by \<^verbatim>\<open>check_error\<close> is visible.
\<close>

datatype py_error =
    ValueError
  | IndexError
  | TypeError
  | OverflowError
  | AttributeError
  | EvocoreError
  | EvocoreNullPointerError
  | EvocoreOutOfMemoryError
  | EvocoreInvalidArgumentError
  | EvocoreGenomeError
  | EvocorePopulationError
  | EvocoreConfigError
  | EvocoreFileError

text \<open>\<^verbatim>\<open>xs[i]\<close> for a non-negative index: IndexError out of range.\<close>

definition py_index :: "'a list \<Rightarrow> nat \<Rightarrow> py_error + 'a" where
  "py_index xs i = (if i < length xs then Inr (xs ! i) else Inl IndexError)"

text \<open>\<^verbatim>\<open>x in xs\<close> on a list or tuple: a left-to-right search with \<^verbatim>\<open>==\<close>.\<close>

fun py_in :: "'a \<Rightarrow> 'a list \<Rightarrow> bool" where
  "py_in x [] = False"
| "py_in x (y # ys) = (if x = y then True else py_in x ys)"

section \<open>utils/config.py: ConfigEntry\<close>

datatype ConfigType = STRING | INT | DOUBLE | BOOL

record ConfigEntry =
  cfg_key :: string
  cfg_value :: string
  cfg_type :: ConfigType

text \<open>
  \<^verbatim>\<open>str.lower()\<close>, character by character.  The characters of the model are the code
  points below 256: the letters A..Z go to a..z, the capital letters of Latin-1 (192 to 222,
  without the multiplication sign 215) to their small forms 32 further on, and every other
  character stays as it is.
\<close>

definition lower_char :: "char \<Rightarrow> char" where
  "lower_char c =
     (let n = (of_char c :: nat) in
      if (65 \<le> n \<and> n \<le> 90) \<or> (192 \<le> n \<and> n \<le> 222 \<and> n \<noteq> 215)
      then char_of (n + 32) else c)"

definition lower :: "string \<Rightarrow> string" where
  "lower s = map lower_char s"

text \<open>\<^verbatim>\<open>return self.value.lower() in ('true', '1', 'yes', 'on')\<close>\<close>

definition as_bool :: "ConfigEntry \<Rightarrow> bool" where
  "as_bool e = py_in (lower (cfg_value e)) [''true'', ''1'', ''yes'', ''on'']"

text \<open>
  Equality up to case, written without \<open>lower\<close>: the character \<open>c\<close> of a value matches
  the small letter or digit \<open>w\<close> of a literal when it is \<open>w\<close> or the capital of \<open>w\<close>,
  and a value equals a literal up to case when it matches character by character.
\<close>

definition same_letter :: "char \<Rightarrow> char \<Rightarrow> bool" where
  "same_letter c w =
     (c = w \<or> (97 \<le> (of_char w :: nat) \<and> (of_char w :: nat) \<le> 122
               \<and> (of_char c :: nat) + 32 = of_char w))"

definition equal_ignoring_case :: "string \<Rightarrow> string \<Rightarrow> bool" where
  "equal_ignoring_case s w = list_all2 same_letter s w"

section \<open>utils/stats.py: ProgressReporter\<close>

text \<open>
  \<^verbatim>\<open>Stats\<close> is read through its properties; \<^verbatim>\<open>generation\<close> is a \<^verbatim>\<open>size_t\<close> of the C
  structure, hence a natural number.
\<close>

record Stats =
  generation :: nat
  best_fitness :: real
  avg_fitness :: real
  diversity :: real

text \<open>
  The reporter's fields as \<^verbatim>\<open>__init__\<close> sets them.  The callback is observational
  (\<^verbatim>\<open>Callable[[Stats], None]\<close>): its effect is the list of snapshots it has been called with,
  returned beside the updated reporter.
\<close>

record ProgressReporter =
  every_n :: int
  verbose :: bool
  last_reported :: int

definition ProgressReporter_init :: "int \<Rightarrow> bool \<Rightarrow> ProgressReporter" where
  "ProgressReporter_init n v = \<lparr>every_n = n, verbose = v, last_reported = - 1\<rparr>"

definition report :: "ProgressReporter \<Rightarrow> Stats \<Rightarrow> ProgressReporter \<times> Stats list" where
  "report r stats =
     (let gen = int (generation stats) in
      if gen - last_reported r \<ge> every_n r
      then (r\<lparr>last_reported := gen\<rparr>, [stats])
      else (r, []))"

definition force_report :: "ProgressReporter \<Rightarrow> Stats \<Rightarrow> ProgressReporter \<times> Stats list" where
  "force_report r stats = (r\<lparr>last_reported := int (generation stats)\<rparr>, [stats])"

text \<open>A run of the driving loop: \<^verbatim>\<open>report\<close> once per snapshot, the callback's calls in order.\<close>

fun report_all :: "ProgressReporter \<Rightarrow> Stats list \<Rightarrow> ProgressReporter \<times> Stats list" where
  "report_all r [] = (r, [])"
| "report_all r (s # ss) =
     (let (r1, c1) = report r s; (r2, c2) = report_all r1 ss in (r2, c1 @ c2))"

text \<open>
  Calls \<open>cs\<close> are spaced by \<open>n\<close> after a last report at \<open>l\<close>: each call is at least \<open>n\<close>
  generations after the one before it, the first one after \<open>l\<close>.
\<close>

fun spaced :: "int \<Rightarrow> int \<Rightarrow> Stats list \<Rightarrow> bool" where
  "spaced n l [] = True"
| "spaced n l (c # cs) = (n \<le> int (generation c) - l \<and> spaced n (int (generation c)) cs)"

section \<open>numpy's global generator and cffi conversions\<close>

text \<open>
  \<^verbatim>\<open>np.random.uniform\<close> draws from numpy's process-wide generator.  The generator is not
  part of any evocore object, so it is a state of its own: the stream of numbers it will
  produce next.  A draw of \<open>n\<close> values takes the first \<open>n\<close> of them, scaled into
  \<open>[low, high)\<close>, and leaves the rest.
\<close>

type_synonym np_random = "nat \<Rightarrow> real"

definition np_random_uniform ::
  "real \<Rightarrow> real \<Rightarrow> nat \<Rightarrow> np_random \<Rightarrow> real list \<times> np_random" where
  "np_random_uniform low high n g =
     (map (\<lambda>i. low + (high - low) * g i) [0..<n], \<lambda>i. g (i + n))"


text \<open>
  \<^verbatim>\<open>ffi.new("unsigned int *", v)\<close>: cffi refuses an integer that does not fit the C type.
  \<^verbatim>\<open>seed if seed is not None else 0\<close> is \<open>seed_arg\<close>.
\<close>

definition new_unsigned_int :: "int \<Rightarrow> py_error + 32 word" where
  "new_unsigned_int v = (if 0 \<le> v \<and> v < 2 ^ 32 then Inr (word_of_int v) else Inl OverflowError)"

definition seed_arg :: "int option \<Rightarrow> int" where
  "seed_arg seed = (case seed of None \<Rightarrow> 0 | Some v \<Rightarrow> v)"

text \<open>
  The C library's seeded generator is not among the sources; what the library draws from a
  seed is a parameter of the model: a function from the seed to a standard normal deviate
  and the next seed.
\<close>

type_synonym prng = "32 word \<Rightarrow> real \<times> 32 word"

section \<open>learning/weighted.py: WeightedStats and WeightedArray\<close>

text \<open>The structure \<^verbatim>\<open>evocore_weighted_stats_t\<close> as \<^verbatim>\<open>_ffi_build.py\<close> declares it.\<close>

record weighted_stats =
  mean :: real
  variance :: real
  sum_weights :: real
  m2 :: real
  count :: nat
  min_value :: real
  max_value :: real
  sum_weighted_x :: real

text \<open>
  The C library is not among the sources.  The C functions \<^verbatim>\<open>evocore_weighted_init\<close>,
  \<^verbatim>\<open>evocore_weighted_update\<close>, \<^verbatim>\<open>evocore_weighted_mean\<close>, \<^verbatim>\<open>evocore_weighted_variance\<close>,
  \<^verbatim>\<open>evocore_weighted_std\<close> and \<^verbatim>\<open>evocore_weighted_merge\<close> are missing from the sources (only
  their declarations are there).  The spec: an update fails (returns false) if the weight is
  negative; otherwise it updates count, sum of weights, mean and the weighted second moment
  by a stable incremental (Welford-style) formula and tracks the running minimum and maximum;
  variance and standard deviation are 0 when \<open>count < 2\<close>; merge combines two accumulators
  algebraically (parallel Welford merge).  Arithmetic is over the reals.  A division by a
  zero sum of weights, where the spec leaves the mean undefined, is written out: the mean
  stays as it is.
\<close>

text \<open>
  Modelled from the spec: the C function \<^verbatim>\<open>evocore_weighted_init\<close> is
  missing; a new accumulator has count 0 and no weight.
\<close>

definition evocore_weighted_init :: weighted_stats where
  "evocore_weighted_init =
     \<lparr>mean = 0, variance = 0, sum_weights = 0, m2 = 0, count = 0,
      min_value = 0, max_value = 0, sum_weighted_x = 0\<rparr>"

text \<open>
  Modelled from the spec: the C function \<^verbatim>\<open>evocore_weighted_update\<close>
  is missing; it fails (returns false) if the weight is negative, and otherwise updates
  count, sum of weights, mean and second moment incrementally and tracks minimum and
  maximum.
\<close>

definition evocore_weighted_update ::
  "weighted_stats \<Rightarrow> real \<Rightarrow> real \<Rightarrow> bool \<times> weighted_stats" where
  "evocore_weighted_update s v w =
     (if w < 0 then (False, s)
      else
        let new_sum = sum_weights s + w;
            delta = v - mean s;
            new_mean = (if new_sum = 0 then mean s else mean s + (w / new_sum) * delta);
            new_m2 = m2 s + w * delta * (v - new_mean);
            n = count s + 1
        in (True,
            \<lparr>mean = new_mean,
             variance = (if n < 2 \<or> new_sum = 0 then 0 else new_m2 / new_sum),
             sum_weights = new_sum,
             m2 = new_m2,
             count = n,
             min_value = (if count s = 0 then v else min (min_value s) v),
             max_value = (if count s = 0 then v else max (max_value s) v),
             sum_weighted_x = sum_weighted_x s + w * v\<rparr>))"

text \<open>
  Modelled from the spec: the C function \<^verbatim>\<open>evocore_weighted_mean\<close> is
  missing; the weighted mean of the accumulator.
\<close>

definition evocore_weighted_mean :: "weighted_stats \<Rightarrow> real" where
  "evocore_weighted_mean s = mean s"

text \<open>
  Modelled from the spec: the C function
  \<^verbatim>\<open>evocore_weighted_variance\<close> is missing; the variance is 0 when
  the count is below 2.
\<close>

definition evocore_weighted_variance :: "weighted_stats \<Rightarrow> real" where
  "evocore_weighted_variance s = (if count s < 2 then 0 else variance s)"

text \<open>
  Modelled from the spec: the C function \<^verbatim>\<open>evocore_weighted_std\<close> is
  missing; the standard deviation is 0 when the count is below 2.
\<close>

definition evocore_weighted_std :: "weighted_stats \<Rightarrow> real" where
  "evocore_weighted_std s = sqrt (evocore_weighted_variance s)"

text \<open>
  Modelled from the spec: the C function \<^verbatim>\<open>evocore_weighted_merge\<close>
  is missing; it combines two accumulators algebraically (parallel Welford merge), from
  their fields alone.
\<close>

definition evocore_weighted_merge ::
  "weighted_stats \<Rightarrow> weighted_stats \<Rightarrow> bool \<times> weighted_stats" where
  "evocore_weighted_merge s1 s2 =
     (let total = sum_weights s1 + sum_weights s2;
          delta = mean s2 - mean s1;
          new_mean = (if total = 0 then mean s1
                      else mean s1 + delta * (sum_weights s2 / total));
          new_m2 = m2 s1 + m2 s2 +
                   (if total = 0 then 0
                    else delta * delta * sum_weights s1 * sum_weights s2 / total);
          n = count s1 + count s2
      in (True,
          \<lparr>mean = new_mean,
           variance = (if n < 2 \<or> total = 0 then 0 else new_m2 / total),
           sum_weights = total,
           m2 = new_m2,
           count = n,
           min_value = (if count s1 = 0 then min_value s2
                        else if count s2 = 0 then min_value s1
                        else min (min_value s1) (min_value s2)),
           max_value = (if count s1 = 0 then max_value s2
                        else if count s2 = 0 then max_value s1
                        else max (max_value s1) (max_value s2)),
           sum_weighted_x = sum_weighted_x s1 + sum_weighted_x s2\<rparr>))"

text \<open>
  The Python class \<^verbatim>\<open>WeightedStats\<close> holds one such structure and passes every call on to
  the library; the object is the structure.
\<close>

definition WeightedStats_init :: weighted_stats where
  "WeightedStats_init = evocore_weighted_init"

definition WeightedStats_update ::
  "weighted_stats \<Rightarrow> real \<Rightarrow> real \<Rightarrow> bool \<times> weighted_stats" where
  "WeightedStats_update self v weight = evocore_weighted_update self v weight"

definition WeightedStats_mean :: "weighted_stats \<Rightarrow> real" where
  "WeightedStats_mean self = evocore_weighted_mean self"

definition WeightedStats_sum_weights :: "weighted_stats \<Rightarrow> real" where
  "WeightedStats_sum_weights self = sum_weights self"

definition WeightedStats_merge ::
  "weighted_stats \<Rightarrow> weighted_stats \<Rightarrow> bool \<times> weighted_stats" where
  "WeightedStats_merge self other = evocore_weighted_merge self other"

text \<open>
  An accumulator built from a sequence of \<^verbatim>\<open>(value, weight)\<close> updates, and the quantities
  computed directly from such a sequence: the updates the accumulator takes (a negative
  weight is refused), their total weight and their weighted sum.
\<close>

fun updates :: "weighted_stats \<Rightarrow> (real \<times> real) list \<Rightarrow> weighted_stats" where
  "updates s [] = s"
| "updates s ((v, w) # us) = updates (snd (WeightedStats_update s v w)) us"

definition accepted :: "(real \<times> real) list \<Rightarrow> (real \<times> real) list" where
  "accepted us = filter (\<lambda>(v, w). \<not> w < 0) us"

definition total_weight :: "(real \<times> real) list \<Rightarrow> real" where
  "total_weight us = sum_list (map (\<lambda>(v, w). w) (accepted us))"

definition weighted_sum :: "(real \<times> real) list \<Rightarrow> real" where
  "weighted_sum us = sum_list (map (\<lambda>(v, w). w * v) (accepted us))"

text \<open>
  The accumulator \<open>s\<close> stands for updates of total weight \<open>W\<close> and weighted sum \<open>S\<close>.
\<close>

definition tracks :: "weighted_stats \<Rightarrow> real \<Rightarrow> real \<Rightarrow> bool" where
  "tracks s W S =
     (sum_weights s = W \<and> 0 \<le> W \<and> (W = 0 \<longrightarrow> S = 0) \<and> mean s = (if W = 0 then 0 else S / W))"

text \<open>The structure \<^verbatim>\<open>evocore_weighted_array_t\<close>: one accumulator per parameter.\<close>

record weighted_array =
  arr_stats :: "weighted_stats list"
  arr_count :: nat

text \<open>
  The C functions \<^verbatim>\<open>evocore_weighted_array_create\<close>,
  \<^verbatim>\<open>evocore_weighted_array_update\<close> and \<^verbatim>\<open>evocore_weighted_array_sample\<close> are missing from
  the sources.  The spec: the array has a fixed length and applies every operation per
  parameter, with per-parameter weights and a global multiplier; entry points validate
  before they mutate and fail without a partial mutation; a sample blends each parameter's
  mean with a random offset scaled by its deviation and by the exploration factor, and is
  the mean at exploration 0.
\<close>

text \<open>
  Modelled from the spec: the C function
  \<^verbatim>\<open>evocore_weighted_array_create\<close> is missing; a fixed-length
  sequence of new accumulators, one per parameter.
\<close>

definition evocore_weighted_array_create :: "nat \<Rightarrow> weighted_array" where
  "evocore_weighted_array_create n =
     \<lparr>arr_stats = replicate n evocore_weighted_init, arr_count = n\<rparr>"

text \<open>
  Modelled from the spec: the C function
  \<^verbatim>\<open>evocore_weighted_array_update\<close> is missing; it validates before
  it mutates, then updates each parameter's accumulator with its weight times the global
  multiplier.
\<close>

definition evocore_weighted_array_update ::
  "weighted_array \<Rightarrow> real list \<Rightarrow> real list \<Rightarrow> nat \<Rightarrow> real \<Rightarrow> bool \<times> weighted_array" where
  "evocore_weighted_array_update arr vals weights n global_weight =
     (let ws = map (\<lambda>w. w * global_weight) weights in
      if n \<noteq> arr_count arr \<or> length vals \<noteq> n \<or> length weights \<noteq> n
         \<or> list_ex (\<lambda>w. w < 0) ws
      then (False, arr)
      else (True, arr\<lparr>arr_stats :=
              map (\<lambda>(s, v, w). snd (evocore_weighted_update s v w))
                  (zip (arr_stats arr) (zip vals ws))\<rparr>))"

text \<open>
  Modelled from the spec: the loop of the missing C function
  \<^verbatim>\<open>evocore_weighted_array_sample\<close>; each parameter's mean plus a
  random offset scaled by its deviation and by the exploration factor, the seed threaded
  from one draw to the next.
\<close>

fun sample_stats :: "prng \<Rightarrow> weighted_stats list \<Rightarrow> real \<Rightarrow> 32 word \<Rightarrow> real list \<times> 32 word" where
  "sample_stats gauss [] e seed = ([], seed)"
| "sample_stats gauss (s # ss) e seed =
     (let (z, seed1) = gauss seed;
          (vs, seed2) = sample_stats gauss ss e seed1
      in ((mean s + e * evocore_weighted_std s * z) # vs, seed2))"

text \<open>
  Modelled from the spec: the C function
  \<^verbatim>\<open>evocore_weighted_array_sample\<close> is missing; it fails on a wrong
  count and otherwise samples every parameter.
\<close>

definition evocore_weighted_array_sample ::
  "prng \<Rightarrow> weighted_array \<Rightarrow> nat \<Rightarrow> real \<Rightarrow> 32 word \<Rightarrow> (real list \<times> 32 word) option" where
  "evocore_weighted_array_sample gauss arr n e seed =
     (if n \<noteq> arr_count arr then None else Some (sample_stats gauss (arr_stats arr) e seed))"

text \<open>The Python class \<^verbatim>\<open>WeightedArray\<close>: the library's array and \<^verbatim>\<open>_count\<close>.\<close>

record WeightedArray =
  wa_array :: weighted_array
  wa_count :: nat

definition WeightedArray_init :: "nat \<Rightarrow> WeightedArray" where
  "WeightedArray_init n = \<lparr>wa_array = evocore_weighted_array_create n, wa_count = n\<rparr>"

text \<open>
  \<^verbatim>\<open>WeightedArray.update(values, weights=None, global_weight=1.0)\<close>.  The result is the
  value returned or the exception raised, beside the object after the call.
\<close>

definition WeightedArray_update ::
  "WeightedArray \<Rightarrow> real list \<Rightarrow> real list option \<Rightarrow> real
   \<Rightarrow> (py_error + bool) \<times> WeightedArray" where
  "WeightedArray_update self vals weights global_weight =
     (if length vals \<noteq> wa_count self then (Inl ValueError, self)
      else
        case (case weights of
                None \<Rightarrow> Inr (replicate (wa_count self) 1)
              | Some ws \<Rightarrow> if length ws \<noteq> wa_count self then Inl ValueError else Inr ws) of
          Inl e \<Rightarrow> (Inl e, self)
        | Inr ws \<Rightarrow>
            let (ok, arr) = evocore_weighted_array_update (wa_array self) vals ws
                              (wa_count self) global_weight
            in (Inr ok, self\<lparr>wa_array := arr\<rparr>))"

section \<open>learning/context.py: ContextSystem\<close>

type_synonym dimensions = "(string \<times> string list) list"

text \<open>
  The structures \<^verbatim>\<open>evocore_context_stats_t\<close> and \<^verbatim>\<open>evocore_context_system_t\<close>.  Of the
  statistics of a context the model keeps the key, the parameter accumulators and the
  experience and fitness fields; \<open>internal\<close> is the table from keys to statistics, and
  \<^verbatim>\<open>total_contexts\<close> is its size.  The separator of keys is a constant of the missing C
  code; the spec does not name it, and the model keeps it beside the system's fields.
\<close>

record context_stats =
  key :: string
  stats :: weighted_array
  stats_param_count :: nat
  total_experiences :: nat
  ctx_avg_fitness :: real
  ctx_best_fitness :: real

record evocore_context_system =
  dimensions :: dimensions
  internal :: "(string \<times> context_stats) list"
  param_count :: nat
  separator :: char

text \<open>\<^verbatim>\<open>sep.join(xs)\<close>\<close>

fun join :: "string \<Rightarrow> string list \<Rightarrow> string" where
  "join sep [] = []"
| "join sep [x] = x"
| "join sep (x # y # ys) = x @ sep @ join sep (y # ys)"

text \<open>
  \<^verbatim>\<open>c.encode()\<close> and the loop that encodes each value of a context before a library
  call.  UTF-8 is one-to-one, so the bytes stand for the value; \<^verbatim>\<open>str.encode()\<close> refuses
  lone surrogates only, and the characters of the model, code points below 256, always
  encode.
\<close>

definition encode :: "string \<Rightarrow> py_error + string" where
  "encode c = Inr c"

fun encode_all :: "string list \<Rightarrow> py_error + string list" where
  "encode_all [] = Inr []"
| "encode_all (c # cs) =
     (case encode c of
        Inl e \<Rightarrow> Inl e
      | Inr buf \<Rightarrow> (case encode_all cs of Inl e \<Rightarrow> Inl e | Inr bufs \<Rightarrow> Inr (buf # bufs)))"

text \<open>
  Modelled from the spec: the hash table behind \<^verbatim>\<open>internal\<close> is
  missing; keys are unique, and storing under a key replaces its entry or adds one.
\<close>

fun table_put :: "string \<Rightarrow> context_stats \<Rightarrow> (string \<times> context_stats) list
                  \<Rightarrow> (string \<times> context_stats) list" where
  "table_put k v [] = [(k, v)]"
| "table_put k v ((k', v') # t) = (if k' = k then (k, v) # t else (k', v') # table_put k v t)"

text \<open>
  The C functions \<^verbatim>\<open>evocore_context_system_create\<close>,
  \<^verbatim>\<open>evocore_context_validate_values\<close>, \<^verbatim>\<open>evocore_context_build_key\<close>,
  \<^verbatim>\<open>evocore_context_learn\<close>, \<^verbatim>\<open>evocore_context_sample\<close> and \<^verbatim>\<open>evocore_context_count\<close> are
  missing from the sources.  The spec: the dimension definitions are fixed at construction;
  a key is the order-preserving concatenation of the per-dimension values with a reserved
  separator, building it fails unless each value is in its dimension's declared set, and
  keys of valid, distinct tuples are distinct.  Learning resolves or creates the statistics
  of the key, updates the accumulators with a weight derived from the fitness (the spec
  leaves the weighting function open: it is the parameter \<open>weight_of\<close>) and updates best
  and average fitness and the experience count.  Sampling reports failure for a context
  without data and otherwise samples the accumulators.
\<close>

text \<open>
  Modelled from the spec: the C function
  \<^verbatim>\<open>evocore_context_system_create\<close> is missing; the dimensions are
  fixed at construction and no context has statistics yet.  The separator is reserved: no
  declared value may contain it, and a system whose dimensions break this is not created
  (the function returns NULL).
\<close>

definition evocore_context_system_create ::
  "char \<Rightarrow> dimensions \<Rightarrow> nat \<Rightarrow> evocore_context_system option" where
  "evocore_context_system_create sep dims n =
     (if list_ex (\<lambda>d. list_ex (\<lambda>v. py_in sep v) (snd d)) dims then None
      else Some \<lparr>dimensions = dims, internal = [], param_count = n, separator = sep\<rparr>)"

text \<open>
  Modelled from the spec: the C function
  \<^verbatim>\<open>evocore_context_validate_values\<close> is missing; exactly one value
  per declared dimension, each from that dimension's declared values.
\<close>

definition evocore_context_validate_values :: "evocore_context_system \<Rightarrow> string list \<Rightarrow> bool" where
  "evocore_context_validate_values sys vals =
     list_all2 (\<lambda>v d. py_in v (snd d)) vals (dimensions sys)"

text \<open>
  Modelled from the spec: the key derivation inside the missing C library; the
  order-preserving concatenation of the values with the reserved separator, for a valid
  tuple only.
\<close>

definition context_key :: "evocore_context_system \<Rightarrow> string list \<Rightarrow> string option" where
  "context_key sys vals =
     (if evocore_context_validate_values sys vals then Some (join [separator sys] vals)
      else None)"


text \<open>
  Modelled from the spec: the creation of statistics inside the missing
  \<^verbatim>\<open>evocore_context_learn\<close>; statistics are created on the first
  learn for a new key, with no experience.
\<close>

definition new_context_stats :: "string \<Rightarrow> nat \<Rightarrow> context_stats" where
  "new_context_stats k n =
     \<lparr>key = k, stats = evocore_weighted_array_create n, stats_param_count = n,
      total_experiences = 0, ctx_avg_fitness = 0, ctx_best_fitness = 0\<rparr>"

text \<open>
  Modelled from the spec: the C function \<^verbatim>\<open>evocore_context_learn\<close> is
  missing; it resolves or creates the statistics of the key, updates the accumulators with
  the weight of the fitness, and updates best and average fitness and the experience count.
\<close>

definition evocore_context_learn ::
  "(real \<Rightarrow> real) \<Rightarrow> evocore_context_system \<Rightarrow> string list \<Rightarrow> real list \<Rightarrow> nat \<Rightarrow> real
   \<Rightarrow> bool \<times> evocore_context_system" where
  "evocore_context_learn weight_of sys vals params n fitness =
     (case context_key sys vals of
        None \<Rightarrow> (False, sys)
      | Some k \<Rightarrow>
          if n \<noteq> param_count sys \<or> length params \<noteq> n then (False, sys)
          else
            let st = (case map_of (internal sys) k of
                        Some st \<Rightarrow> st
                      | None \<Rightarrow> new_context_stats k (param_count sys));
                (ok, arr) = evocore_weighted_array_update (stats st) params (replicate n 1) n
                              (weight_of fitness)
            in if \<not> ok then (False, sys)
               else
                 let m = total_experiences st + 1;
                     st' = st\<lparr>stats := arr,
                              total_experiences := m,
                              ctx_avg_fitness :=
                                ctx_avg_fitness st + (fitness - ctx_avg_fitness st) / real m,
                              ctx_best_fitness :=
                                (if total_experiences st = 0 then fitness
                                 else max (ctx_best_fitness st) fitness)\<rparr>
                 in (True, sys\<lparr>internal := table_put k st' (internal sys)\<rparr>))"

text \<open>
  Modelled from the spec: the C function \<^verbatim>\<open>evocore_context_sample\<close>
  is missing; it reports failure for a context without data and otherwise samples the
  context's accumulators.
\<close>

definition evocore_context_sample ::
  "prng \<Rightarrow> evocore_context_system \<Rightarrow> string list \<Rightarrow> nat \<Rightarrow> real \<Rightarrow> 32 word
   \<Rightarrow> (real list \<times> 32 word) option" where
  "evocore_context_sample gauss sys vals n exploration seed =
     (case context_key sys vals of
        None \<Rightarrow> None
      | Some k \<Rightarrow>
          (case map_of (internal sys) k of
             None \<Rightarrow> None
           | Some st \<Rightarrow> evocore_weighted_array_sample gauss (stats st) n exploration seed))"

text \<open>
  Modelled from the spec: the C function \<^verbatim>\<open>evocore_context_count\<close> is
  missing; the number of contexts with statistics.
\<close>

definition evocore_context_count :: "evocore_context_system \<Rightarrow> nat" where
  "evocore_context_count sys = length (internal sys)"

text \<open>
  The Python object: the library's system and the Python-side copies \<^verbatim>\<open>_dimensions\<close> and
  \<^verbatim>\<open>_param_count\<close>.  \<^verbatim>\<open>__init__\<close> encodes the names and the values, gives both sides the
  same dimensions, and raises \<^verbatim>\<open>EvocoreError\<close> when the library returns NULL.  The first
  argument is the library's separator.
\<close>

record ContextSystem =
  system :: evocore_context_system
  py_dimensions :: dimensions
  py_param_count :: nat

definition ContextSystem_init :: "char \<Rightarrow> dimensions \<Rightarrow> nat \<Rightarrow> py_error + ContextSystem" where
  "ContextSystem_init sep dims n =
     (case encode_all (map fst dims @ concat (map snd dims)) of
        Inl e \<Rightarrow> Inl e
      | Inr bufs \<Rightarrow>
          (case evocore_context_system_create sep dims n of
             None \<Rightarrow> Inl EvocoreError
           | Some sys \<Rightarrow> Inr \<lparr>system = sys, py_dimensions = dims, py_param_count = n\<rparr>))"

definition context_count :: "ContextSystem \<Rightarrow> nat" where
  "context_count self = evocore_context_count (system self)"

text \<open>\<^verbatim>\<open>ContextSystem.learn(context, parameters, fitness)\<close>\<close>

definition learn ::
  "(real \<Rightarrow> real) \<Rightarrow> ContextSystem \<Rightarrow> string list \<Rightarrow> real list \<Rightarrow> real
   \<Rightarrow> (py_error + bool) \<times> ContextSystem" where
  "learn weight_of self ctx parameters fitness =
     (if length ctx \<noteq> length (py_dimensions self) then (Inl ValueError, self)
      else if length parameters \<noteq> py_param_count self then (Inl ValueError, self)
      else
        case encode_all ctx of
          Inl e \<Rightarrow> (Inl e, self)
        | Inr context_arr \<Rightarrow>
            let (result, sys) = evocore_context_learn weight_of (system self) context_arr
                                  parameters (length parameters) fitness
            in (Inr result, self\<lparr>system := sys\<rparr>))"


text \<open>
  \<^verbatim>\<open>ContextSystem.sample(context, exploration=0.5, seed=None)\<close>.  The library call leaves
  the system as it is (it takes it \<^verbatim>\<open>const\<close>); the fallback draws from numpy's global
  generator, whose state is threaded through.
\<close>

definition sample ::
  "prng \<Rightarrow> ContextSystem \<Rightarrow> string list \<Rightarrow> real \<Rightarrow> int option \<Rightarrow> np_random
   \<Rightarrow> (py_error + real list) \<times> np_random" where
  "sample gauss self ctx exploration seed g =
     (if length ctx \<noteq> length (py_dimensions self) then (Inl ValueError, g)
      else
        case encode_all ctx of
          Inl e \<Rightarrow> (Inl e, g)
        | Inr context_arr \<Rightarrow>
            (case new_unsigned_int (seed_arg seed) of
               Inl e \<Rightarrow> (Inl e, g)
             | Inr seed_ptr \<Rightarrow>
                 (case evocore_context_sample gauss (system self) context_arr
                         (py_param_count self) exploration seed_ptr of
                    None \<Rightarrow>
                      let (v, g') = np_random_uniform 0 1 (py_param_count self) g
                      in (Inr v, g')
                  | Some (out_params, seed') \<Rightarrow> (Inr out_params, g))))"


text \<open>
  \<^verbatim>\<open>ContextSystem.validate_context(context)\<close>: the loop
  \<^verbatim>\<open>for i, (name, valid_values) in enumerate(self._dimensions)\<close>, from index \<open>i\<close> on;
  \<^verbatim>\<open>context[i]\<close> is a checked read.
\<close>

fun validate_loop :: "string list \<Rightarrow> nat \<Rightarrow> dimensions \<Rightarrow> py_error + bool" where
  "validate_loop ctx i [] = Inr True"
| "validate_loop ctx i ((name, valid_values) # rest) =
     (case py_index ctx i of
        Inl e \<Rightarrow> Inl e
      | Inr c \<Rightarrow> if \<not> py_in c valid_values then Inr False
                else validate_loop ctx (Suc i) rest)"

definition validate_context :: "ContextSystem \<Rightarrow> string list \<Rightarrow> py_error + bool" where
  "validate_context self ctx =
     (if length ctx \<noteq> length (py_dimensions self) then Inr False
      else validate_loop ctx 0 (py_dimensions self))"

section \<open>utils/error.py: check\_error\<close>

text \<open>\<^verbatim>\<open>_ERROR_MAP\<close>, by error code, and \<^verbatim>\<open>check_error(code)\<close>.\<close>

definition ERROR_MAP :: "(int \<times> py_error) list" where
  "ERROR_MAP =
     [(- 2, EvocoreNullPointerError),
      (- 3, EvocoreOutOfMemoryError),
      (- 4, EvocoreInvalidArgumentError),
      (- 5, EvocoreError),
      (- 10, EvocoreGenomeError),
      (- 11, EvocoreGenomeError),
      (- 12, EvocoreGenomeError),
      (- 20, EvocorePopulationError),
      (- 21, EvocorePopulationError),
      (- 22, EvocorePopulationError),
      (- 30, EvocoreConfigError),
      (- 31, EvocoreConfigError),
      (- 32, EvocoreConfigError),
      (- 40, EvocoreFileError),
      (- 41, EvocoreFileError),
      (- 42, EvocoreFileError)]"

definition check_error :: "int \<Rightarrow> py_error + unit" where
  "check_error code =
     (if code \<ge> 0 then Inr ()
      else case map_of ERROR_MAP code of
             Some exc_class \<Rightarrow> Inl exc_class
           | None \<Rightarrow> Inl EvocoreError)"



section \<open>meta/params.py: MetaParams\<close>

text \<open>
  The structure \<^verbatim>\<open>evocore_meta_params_t\<close>: \<^verbatim>\<open>double\<close> fields are reals, \<^verbatim>\<open>size_t\<close> fields
  are 64-bit words, \<^verbatim>\<open>negative_learning_enabled\<close> is a \<^verbatim>\<open>bool\<close>.
\<close>

record meta_params =
  optimization_mutation_rate :: real
  variance_mutation_rate :: real
  experimentation_rate :: real
  elite_protection_ratio :: real
  culling_ratio :: real
  fitness_threshold_for_breeding :: real
  target_population_size :: "64 word"
  min_population_size :: "64 word"
  max_population_size :: "64 word"
  learning_rate :: real
  exploration_factor :: real
  confidence_threshold :: real
  profitable_optimization_ratio :: real
  profitable_random_ratio :: real
  losing_optimization_ratio :: real
  losing_random_ratio :: real
  meta_mutation_rate :: real
  meta_learning_rate :: real
  meta_convergence_threshold :: real
  negative_learning_enabled :: bool
  negative_penalty_weight :: real
  negative_decay_rate :: real
  negative_capacity :: "64 word"
  negative_similarity_threshold :: real
  negative_forbidden_threshold :: real

text \<open>
  The values a dictionary of parameters can hold, and cffi's conversions between them and
  the C types of the fields.  A \<^verbatim>\<open>double\<close> field takes a float, an int in range or a bool; a
  \<^verbatim>\<open>size_t\<close> field takes an int or a bool in range and refuses a float; a \<^verbatim>\<open>bool\<close> field takes
  a bool, 0 or 1.  Reading gives a float, an int and a bool.
\<close>

datatype pyval = PyFloat real | PyInt int | PyBool bool

text \<open>
  cffi converts a Python int to a C \<^verbatim>\<open>double\<close> as \<^verbatim>\<open>float(i)\<close> does: the nearest double,
  ties to even, on a mantissa of 53 bits, and \<^verbatim>\<open>OverflowError\<close> when the rounded value is
  beyond the largest double, that is from \<open>2 ^ 1024 - 2 ^ 970\<close> on.
\<close>

fun bit_length :: "nat \<Rightarrow> nat" where
  "bit_length n = (if n = 0 then 0 else Suc (bit_length (n div 2)))"

declare bit_length.simps [simp del]

definition int_to_double :: "int \<Rightarrow> py_error + real" where
  "int_to_double i =
     (let a = nat \<bar>i\<bar> in
      if 2 ^ 1024 - 2 ^ 970 \<le> a then Inl OverflowError
      else if bit_length a \<le> 53 then Inr (real_of_int i)
      else
        let sh = bit_length a - 53;
            m = a div 2 ^ sh;
            r = a mod 2 ^ sh;
            half = 2 ^ (sh - 1);
            m' = (if half < r \<or> (r = half \<and> odd m) then m + 1 else m)
        in Inr (real_of_int (sgn i) * real (m' * 2 ^ sh)))"

definition to_double :: "pyval \<Rightarrow> py_error + real" where
  "to_double v =
     (case v of
        PyFloat r \<Rightarrow> Inr r
      | PyInt i \<Rightarrow> int_to_double i
      | PyBool b \<Rightarrow> Inr (if b then 1 else 0))"

definition to_size_t :: "pyval \<Rightarrow> py_error + 64 word" where
  "to_size_t v =
     (case v of
        PyFloat r \<Rightarrow> Inl TypeError
      | PyInt i \<Rightarrow> if 0 \<le> i \<and> i < 2 ^ 64 then Inr (word_of_int i) else Inl OverflowError
      | PyBool b \<Rightarrow> Inr (if b then 1 else 0))"

definition to_Bool :: "pyval \<Rightarrow> py_error + bool" where
  "to_Bool v =
     (case v of
        PyFloat r \<Rightarrow> Inl TypeError
      | PyInt i \<Rightarrow> if i = 0 then Inr False else if i = 1 then Inr True else Inl OverflowError
      | PyBool b \<Rightarrow> Inr b)"

definition from_size_t :: "64 word \<Rightarrow> pyval" where
  "from_size_t w = PyInt (uint w)"

text \<open>
  The 25 properties of the class, one per field of the structure: the getter reads
  \<^verbatim>\<open>self._params.<field>\<close>, the setter assigns to it.
\<close>

datatype field =
    F_optimization_mutation_rate
  | F_variance_mutation_rate
  | F_experimentation_rate
  | F_elite_protection_ratio
  | F_culling_ratio
  | F_fitness_threshold_for_breeding
  | F_target_population_size
  | F_min_population_size
  | F_max_population_size
  | F_learning_rate
  | F_exploration_factor
  | F_confidence_threshold
  | F_profitable_optimization_ratio
  | F_profitable_random_ratio
  | F_losing_optimization_ratio
  | F_losing_random_ratio
  | F_meta_mutation_rate
  | F_meta_learning_rate
  | F_meta_convergence_threshold
  | F_negative_learning_enabled
  | F_negative_penalty_weight
  | F_negative_decay_rate
  | F_negative_capacity
  | F_negative_similarity_threshold
  | F_negative_forbidden_threshold

fun field_name :: "field \<Rightarrow> string" where
  "field_name F_optimization_mutation_rate = ''optimization_mutation_rate''"
| "field_name F_variance_mutation_rate = ''variance_mutation_rate''"
| "field_name F_experimentation_rate = ''experimentation_rate''"
| "field_name F_elite_protection_ratio = ''elite_protection_ratio''"
| "field_name F_culling_ratio = ''culling_ratio''"
| "field_name F_fitness_threshold_for_breeding = ''fitness_threshold_for_breeding''"
| "field_name F_target_population_size = ''target_population_size''"
| "field_name F_min_population_size = ''min_population_size''"
| "field_name F_max_population_size = ''max_population_size''"
| "field_name F_learning_rate = ''learning_rate''"
| "field_name F_exploration_factor = ''exploration_factor''"
| "field_name F_confidence_threshold = ''confidence_threshold''"
| "field_name F_profitable_optimization_ratio = ''profitable_optimization_ratio''"
| "field_name F_profitable_random_ratio = ''profitable_random_ratio''"
| "field_name F_losing_optimization_ratio = ''losing_optimization_ratio''"
| "field_name F_losing_random_ratio = ''losing_random_ratio''"
| "field_name F_meta_mutation_rate = ''meta_mutation_rate''"
| "field_name F_meta_learning_rate = ''meta_learning_rate''"
| "field_name F_meta_convergence_threshold = ''meta_convergence_threshold''"
| "field_name F_negative_learning_enabled = ''negative_learning_enabled''"
| "field_name F_negative_penalty_weight = ''negative_penalty_weight''"
| "field_name F_negative_decay_rate = ''negative_decay_rate''"
| "field_name F_negative_capacity = ''negative_capacity''"
| "field_name F_negative_similarity_threshold = ''negative_similarity_threshold''"
| "field_name F_negative_forbidden_threshold = ''negative_forbidden_threshold''"

definition all_fields :: "field list" where
  "all_fields =
     [F_optimization_mutation_rate,
      F_variance_mutation_rate,
      F_experimentation_rate,
      F_elite_protection_ratio,
      F_culling_ratio,
      F_fitness_threshold_for_breeding,
      F_target_population_size,
      F_min_population_size,
      F_max_population_size,
      F_learning_rate,
      F_exploration_factor,
      F_confidence_threshold,
      F_profitable_optimization_ratio,
      F_profitable_random_ratio,
      F_losing_optimization_ratio,
      F_losing_random_ratio,
      F_meta_mutation_rate,
      F_meta_learning_rate,
      F_meta_convergence_threshold,
      F_negative_learning_enabled,
      F_negative_penalty_weight,
      F_negative_decay_rate,
      F_negative_capacity,
      F_negative_similarity_threshold,
      F_negative_forbidden_threshold]"

fun getter :: "field \<Rightarrow> meta_params \<Rightarrow> pyval" where
  "getter F_optimization_mutation_rate p = PyFloat (optimization_mutation_rate p)"
| "getter F_variance_mutation_rate p = PyFloat (variance_mutation_rate p)"
| "getter F_experimentation_rate p = PyFloat (experimentation_rate p)"
| "getter F_elite_protection_ratio p = PyFloat (elite_protection_ratio p)"
| "getter F_culling_ratio p = PyFloat (culling_ratio p)"
| "getter F_fitness_threshold_for_breeding p = PyFloat (fitness_threshold_for_breeding p)"
| "getter F_target_population_size p = from_size_t (target_population_size p)"
| "getter F_min_population_size p = from_size_t (min_population_size p)"
| "getter F_max_population_size p = from_size_t (max_population_size p)"
| "getter F_learning_rate p = PyFloat (learning_rate p)"
| "getter F_exploration_factor p = PyFloat (exploration_factor p)"
| "getter F_confidence_threshold p = PyFloat (confidence_threshold p)"
| "getter F_profitable_optimization_ratio p = PyFloat (profitable_optimization_ratio p)"
| "getter F_profitable_random_ratio p = PyFloat (profitable_random_ratio p)"
| "getter F_losing_optimization_ratio p = PyFloat (losing_optimization_ratio p)"
| "getter F_losing_random_ratio p = PyFloat (losing_random_ratio p)"
| "getter F_meta_mutation_rate p = PyFloat (meta_mutation_rate p)"
| "getter F_meta_learning_rate p = PyFloat (meta_learning_rate p)"
| "getter F_meta_convergence_threshold p = PyFloat (meta_convergence_threshold p)"
| "getter F_negative_learning_enabled p = PyBool (negative_learning_enabled p)"
| "getter F_negative_penalty_weight p = PyFloat (negative_penalty_weight p)"
| "getter F_negative_decay_rate p = PyFloat (negative_decay_rate p)"
| "getter F_negative_capacity p = from_size_t (negative_capacity p)"
| "getter F_negative_similarity_threshold p = PyFloat (negative_similarity_threshold p)"
| "getter F_negative_forbidden_threshold p = PyFloat (negative_forbidden_threshold p)"

fun setter :: "field \<Rightarrow> pyval \<Rightarrow> meta_params \<Rightarrow> py_error + meta_params" where
  "setter F_optimization_mutation_rate v p = map_sum id (\<lambda>x. p\<lparr>optimization_mutation_rate := x\<rparr>) (to_double v)"
| "setter F_variance_mutation_rate v p = map_sum id (\<lambda>x. p\<lparr>variance_mutation_rate := x\<rparr>) (to_double v)"
| "setter F_experimentation_rate v p = map_sum id (\<lambda>x. p\<lparr>experimentation_rate := x\<rparr>) (to_double v)"
| "setter F_elite_protection_ratio v p = map_sum id (\<lambda>x. p\<lparr>elite_protection_ratio := x\<rparr>) (to_double v)"
| "setter F_culling_ratio v p = map_sum id (\<lambda>x. p\<lparr>culling_ratio := x\<rparr>) (to_double v)"
| "setter F_fitness_threshold_for_breeding v p = map_sum id (\<lambda>x. p\<lparr>fitness_threshold_for_breeding := x\<rparr>) (to_double v)"
| "setter F_target_population_size v p = map_sum id (\<lambda>x. p\<lparr>target_population_size := x\<rparr>) (to_size_t v)"
| "setter F_min_population_size v p = map_sum id (\<lambda>x. p\<lparr>min_population_size := x\<rparr>) (to_size_t v)"
| "setter F_max_population_size v p = map_sum id (\<lambda>x. p\<lparr>max_population_size := x\<rparr>) (to_size_t v)"
| "setter F_learning_rate v p = map_sum id (\<lambda>x. p\<lparr>learning_rate := x\<rparr>) (to_double v)"
| "setter F_exploration_factor v p = map_sum id (\<lambda>x. p\<lparr>exploration_factor := x\<rparr>) (to_double v)"
| "setter F_confidence_threshold v p = map_sum id (\<lambda>x. p\<lparr>confidence_threshold := x\<rparr>) (to_double v)"
| "setter F_profitable_optimization_ratio v p = map_sum id (\<lambda>x. p\<lparr>profitable_optimization_ratio := x\<rparr>) (to_double v)"
| "setter F_profitable_random_ratio v p = map_sum id (\<lambda>x. p\<lparr>profitable_random_ratio := x\<rparr>) (to_double v)"
| "setter F_losing_optimization_ratio v p = map_sum id (\<lambda>x. p\<lparr>losing_optimization_ratio := x\<rparr>) (to_double v)"
| "setter F_losing_random_ratio v p = map_sum id (\<lambda>x. p\<lparr>losing_random_ratio := x\<rparr>) (to_double v)"
| "setter F_meta_mutation_rate v p = map_sum id (\<lambda>x. p\<lparr>meta_mutation_rate := x\<rparr>) (to_double v)"
| "setter F_meta_learning_rate v p = map_sum id (\<lambda>x. p\<lparr>meta_learning_rate := x\<rparr>) (to_double v)"
| "setter F_meta_convergence_threshold v p = map_sum id (\<lambda>x. p\<lparr>meta_convergence_threshold := x\<rparr>) (to_double v)"
| "setter F_negative_learning_enabled v p = map_sum id (\<lambda>x. p\<lparr>negative_learning_enabled := x\<rparr>) (to_Bool v)"
| "setter F_negative_penalty_weight v p = map_sum id (\<lambda>x. p\<lparr>negative_penalty_weight := x\<rparr>) (to_double v)"
| "setter F_negative_decay_rate v p = map_sum id (\<lambda>x. p\<lparr>negative_decay_rate := x\<rparr>) (to_double v)"
| "setter F_negative_capacity v p = map_sum id (\<lambda>x. p\<lparr>negative_capacity := x\<rparr>) (to_size_t v)"
| "setter F_negative_similarity_threshold v p = map_sum id (\<lambda>x. p\<lparr>negative_similarity_threshold := x\<rparr>) (to_double v)"
| "setter F_negative_forbidden_threshold v p = map_sum id (\<lambda>x. p\<lparr>negative_forbidden_threshold := x\<rparr>) (to_double v)"


text \<open>
  The object: its three slots.  \<^verbatim>\<open>_params\<close> holds the structure, or anything else once
  something else has been assigned to it; for \<^verbatim>\<open>_ffi\<close> and \<^verbatim>\<open>_lib\<close> the model records
  whether they still hold the cffi handles.  The defaults that \<^verbatim>\<open>evocore_meta_params_init\<close>
  writes are not among the sources: they are the argument of \<open>MetaParams_init\<close>.
\<close>

record MetaParams =
  slot_params :: "meta_params option"
  slot_ffi :: bool
  slot_lib :: bool

definition MetaParams_init :: "meta_params \<Rightarrow> MetaParams" where
  "MetaParams_init defaults = \<lparr>slot_params = Some defaults, slot_ffi = True, slot_lib = True\<rparr>"

text \<open>
  What a name finds on a \<^verbatim>\<open>MetaParams\<close> object: a property, one of the three slots, or
  another attribute of the class (a method, \<^verbatim>\<open>PARAM_NAMES\<close>, or one inherited from
  \<^verbatim>\<open>object\<close>).
\<close>

datatype attribute = Property field | Slot_params | Slot_ffi | Slot_lib | ClassAttribute

definition class_attributes :: "string list" where
  "class_attributes =
     [''PARAM_NAMES'', ''validate'', ''mutate'', ''clone'', ''get'', ''set'', ''print'',
      ''to_dict'', ''from_dict'', ''__init__'', ''__repr__'', ''__slots__'', ''__module__'',
      ''__doc__'', ''__class__'', ''__delattr__'', ''__dir__'', ''__eq__'', ''__format__'',
      ''__ge__'', ''__getattribute__'', ''__getstate__'', ''__gt__'', ''__hash__'',
      ''__init_subclass__'', ''__le__'', ''__lt__'', ''__ne__'', ''__new__'', ''__reduce__'',
      ''__reduce_ex__'', ''__setattr__'', ''__sizeof__'', ''__str__'', ''__subclasshook__'']"

definition find_attribute :: "string \<Rightarrow> attribute option" where
  "find_attribute name =
     (case map_of (map (\<lambda>f. (field_name f, f)) all_fields) name of
        Some f \<Rightarrow> Some (Property f)
      | None \<Rightarrow>
          if name = ''_params'' then Some Slot_params
          else if name = ''_ffi'' then Some Slot_ffi
          else if name = ''_lib'' then Some Slot_lib
          else if py_in name class_attributes then Some ClassAttribute
          else None)"

text \<open>
  \<^verbatim>\<open>hasattr(params, name)\<close> is false when the lookup raises AttributeError: for a name
  that finds nothing, and for a property whose getter cannot read \<^verbatim>\<open>self._params\<close>.
\<close>

definition hasattr :: "MetaParams \<Rightarrow> string \<Rightarrow> bool" where
  "hasattr self name =
     (case find_attribute name of
        None \<Rightarrow> False
      | Some (Property f) \<Rightarrow> slot_params self \<noteq> None
      | Some a \<Rightarrow> True)"

text \<open>
  \<^verbatim>\<open>setattr(params, name, value)\<close>: a property's setter assigns the field; a slot takes the
  value, which is no structure and no cffi handle; the class has \<^verbatim>\<open>__slots__\<close> and so no
  instance dictionary, and any other name is refused.
\<close>

definition setattr :: "MetaParams \<Rightarrow> string \<Rightarrow> pyval \<Rightarrow> py_error + MetaParams" where
  "setattr self name v =
     (case find_attribute name of
        None \<Rightarrow> Inl AttributeError
      | Some (Property f) \<Rightarrow>
          (case slot_params self of
             None \<Rightarrow> Inl AttributeError
           | Some p \<Rightarrow> map_sum id (\<lambda>p'. self\<lparr>slot_params := Some p'\<rparr>) (setter f v p))
      | Some Slot_params \<Rightarrow> Inr (self\<lparr>slot_params := None\<rparr>)
      | Some Slot_ffi \<Rightarrow> Inr (self\<lparr>slot_ffi := False\<rparr>)
      | Some Slot_lib \<Rightarrow> Inr (self\<lparr>slot_lib := False\<rparr>)
      | Some ClassAttribute \<Rightarrow>
          if name = ''__class__'' then Inl TypeError else Inl AttributeError)"

text \<open>\<^verbatim>\<open>MetaParams.to_dict()\<close>: the 25 entries in the order of the dictionary display.\<close>

definition to_dict :: "MetaParams \<Rightarrow> py_error + (string \<times> pyval) list" where
  "to_dict self =
     (case slot_params self of
        None \<Rightarrow> Inl AttributeError
      | Some p \<Rightarrow> Inr (map (\<lambda>f. (field_name f, getter f p)) all_fields))"

text \<open>
  \<^verbatim>\<open>MetaParams.from_dict(d)\<close>: the loop over \<^verbatim>\<open>d.items()\<close>, in insertion order, on the
  object that \<^verbatim>\<open>cls()\<close> made.
\<close>

fun from_dict_loop :: "MetaParams \<Rightarrow> (string \<times> pyval) list \<Rightarrow> py_error + MetaParams" where
  "from_dict_loop params [] = Inr params"
| "from_dict_loop params ((name, v) # d) =
     (if hasattr params name
      then (case setattr params name v of
              Inl e \<Rightarrow> Inl e
            | Inr params' \<Rightarrow> from_dict_loop params' d)
      else from_dict_loop params d)"

definition from_dict :: "meta_params \<Rightarrow> (string \<times> pyval) list \<Rightarrow> py_error + MetaParams" where
  "from_dict defaults d = from_dict_loop (MetaParams_init defaults) d"

text \<open>
  The C function \<^verbatim>\<open>evocore_meta_params_set\<close> is missing from the
  sources and modelled from the spec.  The spec: field access by name must be total, an unknown name is an error and
  is not silently ignored.  The names it knows are those of \<^verbatim>\<open>PARAM_NAMES\<close>; for any other
  name it returns \<^verbatim>\<open>EVOCORE_ERR_INVALID_ARG\<close> and leaves the structure as it is.  A
  \<^verbatim>\<open>size_t\<close> field takes the integer part of the value.
\<close>





text \<open>The structure \<open>p\<close> with the field \<open>f\<close> taken from \<open>q\<close>.\<close>

fun copy_field :: "field \<Rightarrow> meta_params \<Rightarrow> meta_params \<Rightarrow> meta_params" where
  "copy_field F_optimization_mutation_rate q p = p\<lparr>optimization_mutation_rate := optimization_mutation_rate q\<rparr>"
| "copy_field F_variance_mutation_rate q p = p\<lparr>variance_mutation_rate := variance_mutation_rate q\<rparr>"
| "copy_field F_experimentation_rate q p = p\<lparr>experimentation_rate := experimentation_rate q\<rparr>"
| "copy_field F_elite_protection_ratio q p = p\<lparr>elite_protection_ratio := elite_protection_ratio q\<rparr>"
| "copy_field F_culling_ratio q p = p\<lparr>culling_ratio := culling_ratio q\<rparr>"
| "copy_field F_fitness_threshold_for_breeding q p = p\<lparr>fitness_threshold_for_breeding := fitness_threshold_for_breeding q\<rparr>"
| "copy_field F_target_population_size q p = p\<lparr>target_population_size := target_population_size q\<rparr>"
| "copy_field F_min_population_size q p = p\<lparr>min_population_size := min_population_size q\<rparr>"
| "copy_field F_max_population_size q p = p\<lparr>max_population_size := max_population_size q\<rparr>"
| "copy_field F_learning_rate q p = p\<lparr>learning_rate := learning_rate q\<rparr>"
| "copy_field F_exploration_factor q p = p\<lparr>exploration_factor := exploration_factor q\<rparr>"
| "copy_field F_confidence_threshold q p = p\<lparr>confidence_threshold := confidence_threshold q\<rparr>"
| "copy_field F_profitable_optimization_ratio q p = p\<lparr>profitable_optimization_ratio := profitable_optimization_ratio q\<rparr>"
| "copy_field F_profitable_random_ratio q p = p\<lparr>profitable_random_ratio := profitable_random_ratio q\<rparr>"
| "copy_field F_losing_optimization_ratio q p = p\<lparr>losing_optimization_ratio := losing_optimization_ratio q\<rparr>"
| "copy_field F_losing_random_ratio q p = p\<lparr>losing_random_ratio := losing_random_ratio q\<rparr>"
| "copy_field F_meta_mutation_rate q p = p\<lparr>meta_mutation_rate := meta_mutation_rate q\<rparr>"
| "copy_field F_meta_learning_rate q p = p\<lparr>meta_learning_rate := meta_learning_rate q\<rparr>"
| "copy_field F_meta_convergence_threshold q p = p\<lparr>meta_convergence_threshold := meta_convergence_threshold q\<rparr>"
| "copy_field F_negative_learning_enabled q p = p\<lparr>negative_learning_enabled := negative_learning_enabled q\<rparr>"
| "copy_field F_negative_penalty_weight q p = p\<lparr>negative_penalty_weight := negative_penalty_weight q\<rparr>"
| "copy_field F_negative_decay_rate q p = p\<lparr>negative_decay_rate := negative_decay_rate q\<rparr>"
| "copy_field F_negative_capacity q p = p\<lparr>negative_capacity := negative_capacity q\<rparr>"
| "copy_field F_negative_similarity_threshold q p = p\<lparr>negative_similarity_threshold := negative_similarity_threshold q\<rparr>"
| "copy_field F_negative_forbidden_threshold q p = p\<lparr>negative_forbidden_threshold := negative_forbidden_threshold q\<rparr>"

text \<open>A parameter structure for the examples.\<close>

definition params0 :: meta_params where
  "params0 =
     \<lparr>optimization_mutation_rate = 0,
      variance_mutation_rate = 0,
      experimentation_rate = 0,
      elite_protection_ratio = 0,
      culling_ratio = 0,
      fitness_threshold_for_breeding = 0,
      target_population_size = 0,
      min_population_size = 0,
      max_population_size = 0,
      learning_rate = 0,
      exploration_factor = 0,
      confidence_threshold = 0,
      profitable_optimization_ratio = 0,
      profitable_random_ratio = 0,
      losing_optimization_ratio = 0,
      losing_random_ratio = 0,
      meta_mutation_rate = 0,
      meta_learning_rate = 0,
      meta_convergence_threshold = 0,
      negative_learning_enabled = False,
      negative_penalty_weight = 0,
      negative_decay_rate = 0,
      negative_capacity = 0,
      negative_similarity_threshold = 0,
      negative_forbidden_threshold = 0\<rparr>"

section \<open>Properties\<close>

lemma py_in_set: "py_in x xs \<longleftrightarrow> x \<in> set xs"
  by (induction xs) auto

subsection \<open>ConfigEntry.as\_bool\<close>

lemma lower_char_eq:
  assumes "(of_char w :: nat) < 128" and "\<not> (65 \<le> (of_char w :: nat) \<and> (of_char w :: nat) \<le> 90)"
  shows "lower_char c = w \<longleftrightarrow> same_letter c w"
proof -
  let ?n = "of_char c :: nat"
  let ?m = "of_char w :: nat"
  have n: "?n < 256" by (rule nat_of_char_less_256)
  have eq: "c = w \<longleftrightarrow> ?n = ?m" by simp
  show ?thesis
  proof (cases "(65 \<le> ?n \<and> ?n \<le> 90) \<or> (192 \<le> ?n \<and> ?n \<le> 222 \<and> ?n \<noteq> 215)")
    case True
    then have l: "lower_char c = char_of (?n + 32)" by (simp add: lower_char_def)
    have "char_of (?n + 32) = w \<longleftrightarrow> (of_char (char_of (?n + 32) :: char) :: nat) = ?m"
      by (metis of_char_eq_iff)
    also have "\<dots> \<longleftrightarrow> ?n + 32 = ?m"
    proof -
      have "?n + 32 < 256" using True by auto
      then have "(?n + 32) mod 256 = ?n + 32" by simp
      then show ?thesis by simp
    qed
    finally have "lower_char c = w \<longleftrightarrow> ?n + 32 = ?m" using l by simp
    then show ?thesis using True assms eq by (auto simp: same_letter_def)
  next
    case False
    then have "lower_char c = c" unfolding lower_char_def Let_def by (rule if_not_P)
    then show ?thesis using False assms eq by (auto simp: same_letter_def)
  qed
qed

lemma lower_eq:
  "list_all (\<lambda>w. (of_char w :: nat) < 128 \<and> \<not> (65 \<le> (of_char w :: nat) \<and> (of_char w :: nat) \<le> 90)) ws
   \<Longrightarrow> lower s = ws \<longleftrightarrow> equal_ignoring_case s ws"
proof (induction ws arbitrary: s)
  case Nil
  then show ?case by (simp add: lower_def equal_ignoring_case_def)
next
  case (Cons w ws)
  then show ?case
    by (cases s) (auto simp: lower_def equal_ignoring_case_def lower_char_eq)
qed

text \<open>
  C10.  \<^verbatim>\<open>as_bool\<close> is true exactly when the stored string, lowercased, is one of
  \<^verbatim>\<open>true\<close>, \<^verbatim>\<open>1\<close>, \<^verbatim>\<open>yes\<close>, \<^verbatim>\<open>on\<close>, that is when the stored string equals one of the
  four up to the case of its letters: \<^verbatim>\<open>TRUE\<close>, \<^verbatim>\<open>Yes\<close> and \<^verbatim>\<open>oN\<close> give true.  Every other
  value, the empty string among them, gives false.  The function is total: there is no
  raising branch.
\<close>

theorem as_bool_iff:
  "as_bool e = (lower (cfg_value e) \<in> {''true'', ''1'', ''yes'', ''on''})
   \<and> as_bool e = (equal_ignoring_case (cfg_value e) ''true''
                  \<or> equal_ignoring_case (cfg_value e) ''1''
                  \<or> equal_ignoring_case (cfg_value e) ''yes''
                  \<or> equal_ignoring_case (cfg_value e) ''on'')
   \<and> as_bool (e\<lparr>cfg_value := ''TRUE''\<rparr>) = True
   \<and> as_bool (e\<lparr>cfg_value := ''Yes''\<rparr>) = True
   \<and> as_bool (e\<lparr>cfg_value := ''oN''\<rparr>) = True
   \<and> as_bool (e\<lparr>cfg_value := ''1''\<rparr>) = True
   \<and> as_bool (e\<lparr>cfg_value := ''''\<rparr>) = False
   \<and> as_bool (e\<lparr>cfg_value := ''false''\<rparr>) = False
   \<and> as_bool (e\<lparr>cfg_value := ''truE ''\<rparr>) = False"
proof -
  have t: "lower s = ''true'' \<longleftrightarrow> equal_ignoring_case s ''true''" for s
    by (rule lower_eq) simp
  have o: "lower s = ''1'' \<longleftrightarrow> equal_ignoring_case s ''1''" for s
    by (rule lower_eq) simp
  have y: "lower s = ''yes'' \<longleftrightarrow> equal_ignoring_case s ''yes''" for s
    by (rule lower_eq) simp
  have n: "lower s = ''on'' \<longleftrightarrow> equal_ignoring_case s ''on''" for s
    by (rule lower_eq) simp
  have a: "as_bool x = (lower (cfg_value x) \<in> {''true'', ''1'', ''yes'', ''on''})" for x
    by (simp add: as_bool_def)
  have c: "lower ''TRUE'' = ''true''" "lower ''Yes'' = ''yes''" "lower ''oN'' = ''on''"
    "lower ''1'' = ''1''" "lower '''' = ''''" "lower ''false'' = ''false''"
    "lower ''truE '' = ''true ''"
    by (simp_all add: lower_def lower_char_def char_of_eq_iff)
  show ?thesis
    unfolding a using t o y n by (simp add: c)
qed

theorem as_bool_iff_witness:
  "as_bool \<lparr>cfg_key = ''gpu'', cfg_value = ''TRUE'', cfg_type = BOOL\<rparr> = True
   \<and> as_bool \<lparr>cfg_key = ''gpu'', cfg_value = ''off'', cfg_type = BOOL\<rparr> = False"
  using as_bool_iff [of "\<lparr>cfg_key = ''gpu'', cfg_value = ''TRUE'', cfg_type = BOOL\<rparr>"]
        as_bool_iff [of "\<lparr>cfg_key = ''gpu'', cfg_value = ''off'', cfg_type = BOOL\<rparr>"]
  by (simp add: lower_def lower_char_def char_of_eq_iff)

subsection \<open>ContextSystem: construction\<close>

lemma encode_all_id: "encode_all cs = Inr cs"
  by (induction cs) (simp_all add: encode_def)


lemma init_asset:
  "ContextSystem_init CHR '':'' [(''asset'', [''BTC'', ''ETH''])] n
     = Inr \<lparr>system = \<lparr>dimensions = [(''asset'', [''BTC'', ''ETH''])], internal = [], param_count = n,
          separator = CHR '':''\<rparr>,
        py_dimensions = [(''asset'', [''BTC'', ''ETH''])], py_param_count = n\<rparr>"
  by (simp add: ContextSystem_init_def evocore_context_system_create_def encode_all_id)

lemma init_asset_timeframe:
  "ContextSystem_init CHR '':'' [(''asset'', [''BTC'', ''ETH'']), (''timeframe'', [''1h'', ''4h''])] n
     = Inr \<lparr>system = \<lparr>dimensions = [(''asset'', [''BTC'', ''ETH'']), (''timeframe'', [''1h'', ''4h''])], internal = [], param_count = n,
          separator = CHR '':''\<rparr>,
        py_dimensions = [(''asset'', [''BTC'', ''ETH'']), (''timeframe'', [''1h'', ''4h''])], py_param_count = n\<rparr>"
  by (simp add: ContextSystem_init_def evocore_context_system_create_def encode_all_id)

subsection \<open>ContextSystem.validate\_context\<close>

lemma validate_loop_eq:
  "i + length dims = length ctx \<Longrightarrow>
   validate_loop ctx i dims =
     Inr (\<forall>j<length dims. ctx ! (i + j) \<in> set (snd (dims ! j)))"
proof (induction dims arbitrary: i)
  case Nil
  then show ?case by simp
next
  case (Cons d dims)
  obtain name vs where d: "d = (name, vs)" by (cases d)
  have lt: "i < length ctx" using Cons.prems by simp
  have step: "Suc i + length dims = length ctx" using Cons.prems by simp
  show ?case
  proof (cases "ctx ! i \<in> set vs")
    case False
    then have "\<not> (\<forall>j<length (d # dims). ctx ! (i + j) \<in> set (snd ((d # dims) ! j)))"
      using d by (auto intro: exI [of _ 0])
    then show ?thesis using False lt d by (simp add: py_index_def py_in_set)
  next
    case True
    have "(\<forall>j<length (d # dims). ctx ! (i + j) \<in> set (snd ((d # dims) ! j)))
          = (\<forall>j<length dims. ctx ! (Suc i + j) \<in> set (snd (dims ! j)))"
      using True d by (auto simp: less_Suc_eq_0_disj)
    then show ?thesis using True lt d Cons.IH [OF step] by (simp add: py_index_def py_in_set)
  qed
qed

text \<open>
  C6.  \<^verbatim>\<open>validate_context\<close> never raises (the result is always \<open>Inr\<close>, although every
  \<^verbatim>\<open>context[i]\<close> of the model is a checked read), and it returns True exactly when the context
  has one value per declared dimension and the value at each position is in that dimension's
  declared values.
\<close>

theorem validate_context_iff:
  "validate_context self ctx =
     Inr (length ctx = length (py_dimensions self) \<and>
          (\<forall>i<length (py_dimensions self). ctx ! i \<in> set (snd (py_dimensions self ! i))))"
  using validate_loop_eq [of 0 "py_dimensions self" ctx] by (auto simp: validate_context_def)

theorem validate_context_iff_witness:
  "(case ContextSystem_init CHR '':'' [(''asset'', [''BTC'', ''ETH'']), (''timeframe'', [''1h'', ''4h''])] 3 of
      Inl e \<Rightarrow> False
    | Inr cs \<Rightarrow>
        validate_context cs [''ETH'', ''4h''] = Inr True
        \<and> validate_context cs [''ETH'', ''1d''] = Inr False
        \<and> validate_context cs [''ETH''] = Inr False)"
  using validate_context_iff [of
          "\<lparr>system = \<lparr>dimensions = [(''asset'', [''BTC'', ''ETH'']), (''timeframe'', [''1h'', ''4h''])], internal = [], param_count = 3,
          separator = CHR '':''\<rparr>,
        py_dimensions = [(''asset'', [''BTC'', ''ETH'']), (''timeframe'', [''1h'', ''4h''])], py_param_count = 3\<rparr>"
          "[''ETH'', ''4h'']"]
        validate_context_iff [of
          "\<lparr>system = \<lparr>dimensions = [(''asset'', [''BTC'', ''ETH'']), (''timeframe'', [''1h'', ''4h''])], internal = [], param_count = 3,
          separator = CHR '':''\<rparr>,
        py_dimensions = [(''asset'', [''BTC'', ''ETH'']), (''timeframe'', [''1h'', ''4h''])], py_param_count = 3\<rparr>"
          "[''ETH'', ''1d'']"]
        validate_context_iff [of
          "\<lparr>system = \<lparr>dimensions = [(''asset'', [''BTC'', ''ETH'']), (''timeframe'', [''1h'', ''4h''])], internal = [], param_count = 3,
          separator = CHR '':''\<rparr>,
        py_dimensions = [(''asset'', [''BTC'', ''ETH'']), (''timeframe'', [''1h'', ''4h''])], py_param_count = 3\<rparr>"
          "[''ETH'']"]
  by (simp add: init_asset_timeframe less_Suc_eq_0_disj)

subsection \<open>ProgressReporter.report\<close>

lemma report_all_inv:
  "report_all r ss = (r', cs) \<Longrightarrow>
   every_n r' = every_n r \<and> spaced (every_n r) (last_reported r) cs \<and>
   last_reported r' = (if cs = [] then last_reported r else int (generation (last cs)))"
proof (induction ss arbitrary: r r' cs)
  case Nil
  then show ?case by auto
next
  case (Cons s ss)
  obtain r1 c1 where s1: "report r s = (r1, c1)" by (cases "report r s")
  obtain r2 c2 where s2: "report_all r1 ss = (r2, c2)" by (cases "report_all r1 ss")
  have res: "r' = r2" "cs = c1 @ c2" using Cons.prems s1 s2 by auto
  note ih = Cons.IH [OF s2]
  show ?case
  proof (cases "every_n r \<le> int (generation s) - last_reported r")
    case True
    then have "r1 = r\<lparr>last_reported := int (generation s)\<rparr>" "c1 = [s]"
      using s1 by (auto simp: report_def Let_def)
    then show ?thesis using ih res True by auto
  next
    case False
    then have "r1 = r" "c1 = []" using s1 by (auto simp: report_def Let_def)
    then show ?thesis using ih res by auto
  qed
qed

lemma spaced_nth:
  "spaced n l cs \<Longrightarrow> Suc i < length cs \<Longrightarrow>
   n \<le> int (generation (cs ! Suc i)) - int (generation (cs ! i))"
proof (induction cs arbitrary: l i)
  case Nil
  then show ?case by simp
next
  case (Cons c cs)
  show ?case
  proof (cases i)
    case 0
    then show ?thesis using Cons.prems by (cases cs) auto
  next
    case (Suc k)
    then show ?thesis using Cons.prems Cons.IH [of "int (generation c)" k] by auto
  qed
qed

text \<open>
  C8.  \<^verbatim>\<open>report\<close> calls the callback exactly when the snapshot's generation minus the last
  reported generation is at least \<^verbatim>\<open>every_n\<close>; the last reported generation of a new reporter
  is -1; a call passes the snapshot and records its generation, and a report that does not
  call leaves the reporter as it was.  Hence, over any run of \<^verbatim>\<open>report\<close>, two consecutive
  calls of the callback are at least \<^verbatim>\<open>every_n\<close> generations apart.
\<close>

theorem report_cadence:
  "(snd (report r s) \<noteq> [] \<longleftrightarrow> every_n r \<le> int (generation s) - last_reported r)
   \<and> (snd (report r s) \<noteq> [] \<longrightarrow>
        snd (report r s) = [s] \<and> fst (report r s) = r\<lparr>last_reported := int (generation s)\<rparr>)
   \<and> (snd (report r s) = [] \<longrightarrow> fst (report r s) = r)
   \<and> last_reported (ProgressReporter_init n v) = - 1
   \<and> (\<forall>i. Suc i < length (snd (report_all r ss)) \<longrightarrow>
          every_n r \<le> int (generation (snd (report_all r ss) ! Suc i))
                     - int (generation (snd (report_all r ss) ! i)))"
proof -
  obtain r' cs where ra: "report_all r ss = (r', cs)" by (cases "report_all r ss")
  have sp: "spaced (every_n r) (last_reported r) cs" using report_all_inv [OF ra] by simp
  have "\<forall>i. Suc i < length cs \<longrightarrow>
          every_n r \<le> int (generation (cs ! Suc i)) - int (generation (cs ! i))"
    using spaced_nth [OF sp] by blast
  then show ?thesis using ra by (simp add: report_def Let_def ProgressReporter_init_def)
qed

theorem report_cadence_witness:
  "map generation (snd (report_all (ProgressReporter_init 3 False)
       (map (\<lambda>g. \<lparr>generation = g, best_fitness = 0, avg_fitness = 0, diversity = 0\<rparr>)
            [0, 1, 2, 3, 4, 5]))) = [2, 5]
   \<and> Suc 0 < length (snd (report_all (ProgressReporter_init 3 False)
       (map (\<lambda>g. \<lparr>generation = g, best_fitness = 0, avg_fitness = 0, diversity = 0\<rparr>)
            [0, 1, 2, 3, 4, 5])))
   \<and> (3::int) \<le> 5 - 2"
  using report_cadence [of "ProgressReporter_init 3 False"
          "\<lparr>generation = 2, best_fitness = 0, avg_fitness = 0, diversity = 0\<rparr>" 3 False
          "map (\<lambda>g. \<lparr>generation = g, best_fitness = 0, avg_fitness = 0, diversity = 0\<rparr>)
               [0, 1, 2, 3, 4, 5]"]
  by (simp add: report_def ProgressReporter_init_def Let_def)

subsection \<open>ContextSystem.learn and WeightedArray.update: rejected arguments\<close>

text \<open>
  C4.  \<^verbatim>\<open>learn\<close> raises ValueError when the context has not one value per dimension or
  the parameter vector has not \<^verbatim>\<open>param_count\<close> entries, and the object after the call is the
  object before it: no statistics are created and the number of contexts is unchanged.
  \<^verbatim>\<open>WeightedArray.update\<close> raises ValueError when the values or the given weights have not
  \<^verbatim>\<open>count\<close> entries, and leaves the array as it was.
\<close>

theorem learn_update_reject:
  "(length ctx \<noteq> length (py_dimensions self) \<or> length parameters \<noteq> py_param_count self \<longrightarrow>
      learn weight_of self ctx parameters fitness = (Inl ValueError, self)
      \<and> context_count (snd (learn weight_of self ctx parameters fitness)) = context_count self
      \<and> internal (system (snd (learn weight_of self ctx parameters fitness)))
          = internal (system self))
   \<and> (length vals \<noteq> wa_count arr \<or> (\<exists>ws. weights = Some ws \<and> length ws \<noteq> wa_count arr) \<longrightarrow>
      WeightedArray_update arr vals weights global_weight = (Inl ValueError, arr))"
  by (auto simp: learn_def WeightedArray_update_def)

theorem learn_update_reject_witness:
  "(case ContextSystem_init CHR '':'' [(''asset'', [''BTC'', ''ETH''])] 3 of
      Inl e \<Rightarrow> False
    | Inr cs \<Rightarrow>
        learn (\<lambda>f. f) cs [''BTC'', ''1h''] [1, 2, 3] 1 = (Inl ValueError, cs)
        \<and> learn (\<lambda>f. f) cs [''BTC''] [1, 2] 1 = (Inl ValueError, cs))
   \<and> WeightedArray_update (WeightedArray_init 3) [1, 2] None 1
     = (Inl ValueError, WeightedArray_init 3)
   \<and> WeightedArray_update (WeightedArray_init 3) [1, 2, 3] (Some [1, 1]) 1
     = (Inl ValueError, WeightedArray_init 3)"
  using learn_update_reject [of "[''BTC'', ''1h'']"
          "\<lparr>system = \<lparr>dimensions = [(''asset'', [''BTC'', ''ETH''])], internal = [], param_count = 3,
          separator = CHR '':''\<rparr>,
        py_dimensions = [(''asset'', [''BTC'', ''ETH''])], py_param_count = 3\<rparr>" "[1, 2, 3]" "\<lambda>f. f" 1
          "[1, 2]" "WeightedArray_init 3" None 1]
        learn_update_reject [of "[''BTC'']"
          "\<lparr>system = \<lparr>dimensions = [(''asset'', [''BTC'', ''ETH''])], internal = [], param_count = 3,
          separator = CHR '':''\<rparr>,
        py_dimensions = [(''asset'', [''BTC'', ''ETH''])], py_param_count = 3\<rparr>" "[1, 2]" "\<lambda>f. f" 1
          "[1, 2, 3]" "WeightedArray_init 3" "Some [1, 1]" 1]
  by (simp add: init_asset WeightedArray_init_def)

subsection \<open>ContextSystem.sample\<close>















text \<open>
  C1.  On a system without data, two calls of \<^verbatim>\<open>sample\<close> with the same context, the same
  exploration and the same seed 42, one after the other, return different vectors: the
  fallback takes its numbers from numpy's global generator and does not use the seed.
\<close>

theorem sample_fallback_ignores_seed:
  "(case ContextSystem_init CHR '':'' [(''asset'', [''BTC'', ''ETH''])] 1 of
      Inl e \<Rightarrow> False
    | Inr cs \<Rightarrow>
        fst (sample (\<lambda>s. (0, s + 1)) cs [''BTC''] (1 / 2) (Some 42) (\<lambda>i. 1 / (real i + 2)))
          = Inr [1 / 2]
        \<and> fst (sample (\<lambda>s. (0, s + 1)) cs [''BTC''] (1 / 2) (Some 42)
                 (snd (sample (\<lambda>s. (0, s + 1)) cs [''BTC''] (1 / 2) (Some 42)
                         (\<lambda>i. 1 / (real i + 2)))))
          = Inr [1 / 3])"
  by (simp add: init_asset sample_def encode_all_id evocore_context_sample_def context_key_def
      evocore_context_validate_values_def new_unsigned_int_def seed_arg_def
      np_random_uniform_def)

subsection \<open>ContextSystem.build\_key\<close>




subsection \<open>WeightedStats.merge\<close>

lemma tracks_init: "tracks WeightedStats_init 0 0"
  by (simp add: tracks_def WeightedStats_init_def evocore_weighted_init_def)

lemma update_tracks:
  assumes "tracks s W S"
  shows "tracks (snd (WeightedStats_update s v w))
           (W + (if w < 0 then 0 else w)) (S + (if w < 0 then 0 else w * v))"
proof (cases "w < 0")
  case True
  then show ?thesis using assms by (simp add: WeightedStats_update_def evocore_weighted_update_def)
next
  case False
  then have w: "0 \<le> w" by simp
  have sw: "sum_weights s = W" and W: "0 \<le> W" and z: "W = 0 \<longrightarrow> S = 0"
    and m: "mean s = (if W = 0 then 0 else S / W)"
    using assms by (auto simp: tracks_def)
  show ?thesis
  proof (cases "W + w = 0")
    case True
    then have "W = 0" "w = 0" using w W by auto
    then show ?thesis using sw z m
      by (simp add: tracks_def WeightedStats_update_def evocore_weighted_update_def Let_def)
  next
    case nz: False
    have "mean s + (w / (W + w)) * (v - mean s) = (S + w * v) / (W + w)"
    proof (cases "W = 0")
      case True
      then show ?thesis using m z nz by (simp add: field_simps)
    next
      case False
      then show ?thesis using m nz by (simp add: field_simps)
    qed
    then show ?thesis using False nz sw W w
      by (simp add: tracks_def WeightedStats_update_def evocore_weighted_update_def Let_def)
  qed
qed

lemma total_weight_Cons:
  "total_weight ((v, w) # us) = (if w < 0 then 0 else w) + total_weight us"
  by (simp add: total_weight_def accepted_def)

lemma weighted_sum_Cons:
  "weighted_sum ((v, w) # us) = (if w < 0 then 0 else w * v) + weighted_sum us"
  by (simp add: weighted_sum_def accepted_def)

lemma total_weight_append: "total_weight (us @ vs) = total_weight us + total_weight vs"
  by (simp add: total_weight_def accepted_def)

lemma weighted_sum_append: "weighted_sum (us @ vs) = weighted_sum us + weighted_sum vs"
  by (simp add: weighted_sum_def accepted_def)

lemma updates_tracks:
  "tracks s W S \<Longrightarrow> tracks (updates s us) (W + total_weight us) (S + weighted_sum us)"
proof (induction us arbitrary: s W S)
  case Nil
  then show ?case by (simp add: total_weight_def weighted_sum_def accepted_def)
next
  case (Cons u us)
  obtain v w where u: "u = (v, w)" by (cases u)
  have "tracks (updates (snd (WeightedStats_update s v w)) us)
          (W + (if w < 0 then 0 else w) + total_weight us)
          (S + (if w < 0 then 0 else w * v) + weighted_sum us)"
    using Cons.IH [OF update_tracks [OF Cons.prems]] .
  then show ?case using u by (simp add: total_weight_Cons weighted_sum_Cons add.assoc)
qed

lemma built_tracks:
  "tracks (updates WeightedStats_init us) (total_weight us) (weighted_sum us)"
  using updates_tracks [OF tracks_init, of us] by simp

lemma merge_tracks:
  assumes a: "tracks a Wa Sa" and b: "tracks b Wb Sb"
  shows "tracks (snd (WeightedStats_merge a b)) (Wa + Wb) (Sa + Sb)"
proof (cases "Wa + Wb = 0")
  case True
  then have "Wa = 0" "Wb = 0" using a b by (auto simp: tracks_def)
  then show ?thesis using a b
    by (simp add: tracks_def WeightedStats_merge_def evocore_weighted_merge_def Let_def)
next
  case nz: False
  have swa: "sum_weights a = Wa" and swb: "sum_weights b = Wb"
    and Wa: "0 \<le> Wa" and Wb: "0 \<le> Wb"
    and ma: "mean a = (if Wa = 0 then 0 else Sa / Wa)"
    and mb: "mean b = (if Wb = 0 then 0 else Sb / Wb)"
    and za: "Wa = 0 \<longrightarrow> Sa = 0" and zb: "Wb = 0 \<longrightarrow> Sb = 0"
    using a b by (auto simp: tracks_def)
  have "mean a + (mean b - mean a) * (Wb / (Wa + Wb)) = (Sa + Sb) / (Wa + Wb)"
  proof (cases "Wa = 0")
    case True
    then show ?thesis using ma mb za nz by (simp add: field_simps)
  next
    case A: False
    show ?thesis
    proof (cases "Wb = 0")
      case True
      then show ?thesis using ma mb zb nz A by (simp add: field_simps)
    next
      case False
      then show ?thesis using ma mb nz A by (simp add: field_simps)
    qed
  qed
  then show ?thesis using nz swa swb Wa Wb
    by (simp add: tracks_def WeightedStats_merge_def evocore_weighted_merge_def Let_def)
qed

lemma tracks_mean_unique: "tracks s W S \<Longrightarrow> tracks t W S \<Longrightarrow> mean s = mean t"
  by (simp add: tracks_def)

text \<open>
  C7.  Let A, B and C be the accumulators built from the update sequences \<open>us\<close>, \<open>vs\<close> and
  \<open>ws\<close>.  Merging B into A succeeds and gives the mean and the sum of weights of the
  accumulator built from \<open>us @ vs\<close>; the sum of weights is the total weight of the updates
  and, when that is not zero, the mean is their weighted sum divided by it.  The merge
  takes the two structures and nothing else, so no sample is replayed.  The merged mean does
  not depend on the order (A with B, B with A) or on the grouping ((A with B) with C, A with
  (B with C)) of the merges.
\<close>

theorem merge_mean_union:
  "fst (WeightedStats_merge (updates WeightedStats_init us) (updates WeightedStats_init vs))
   \<and> WeightedStats_mean
        (snd (WeightedStats_merge (updates WeightedStats_init us) (updates WeightedStats_init vs)))
      = WeightedStats_mean (updates WeightedStats_init (us @ vs))
   \<and> WeightedStats_sum_weights
        (snd (WeightedStats_merge (updates WeightedStats_init us) (updates WeightedStats_init vs)))
      = WeightedStats_sum_weights (updates WeightedStats_init (us @ vs))
   \<and> WeightedStats_sum_weights
        (snd (WeightedStats_merge (updates WeightedStats_init us) (updates WeightedStats_init vs)))
      = total_weight (us @ vs)
   \<and> (total_weight (us @ vs) \<noteq> 0 \<longrightarrow>
        WeightedStats_mean
          (snd (WeightedStats_merge (updates WeightedStats_init us) (updates WeightedStats_init vs)))
        = weighted_sum (us @ vs) / total_weight (us @ vs))
   \<and> WeightedStats_mean
        (snd (WeightedStats_merge (updates WeightedStats_init us) (updates WeightedStats_init vs)))
      = WeightedStats_mean
        (snd (WeightedStats_merge (updates WeightedStats_init vs) (updates WeightedStats_init us)))
   \<and> WeightedStats_mean
        (snd (WeightedStats_merge
               (snd (WeightedStats_merge (updates WeightedStats_init us)
                      (updates WeightedStats_init vs)))
               (updates WeightedStats_init ws)))
      = WeightedStats_mean
        (snd (WeightedStats_merge (updates WeightedStats_init us)
               (snd (WeightedStats_merge (updates WeightedStats_init vs)
                      (updates WeightedStats_init ws)))))"
proof -
  let ?A = "updates WeightedStats_init us"
  let ?B = "updates WeightedStats_init vs"
  let ?C = "updates WeightedStats_init ws"
  note A = built_tracks [of us] and B = built_tracks [of vs] and C = built_tracks [of ws]
  have AB: "tracks (snd (WeightedStats_merge ?A ?B)) (total_weight (us @ vs)) (weighted_sum (us @ vs))"
    using merge_tracks [OF A B] by (simp add: total_weight_append weighted_sum_append)
  have BA: "tracks (snd (WeightedStats_merge ?B ?A)) (total_weight (us @ vs)) (weighted_sum (us @ vs))"
    using merge_tracks [OF B A] by (simp add: total_weight_append weighted_sum_append add.commute)
  have D: "tracks (updates WeightedStats_init (us @ vs)) (total_weight (us @ vs)) (weighted_sum (us @ vs))"
    by (rule built_tracks)
  have L: "tracks (snd (WeightedStats_merge (snd (WeightedStats_merge ?A ?B)) ?C))
             (total_weight us + total_weight vs + total_weight ws)
             (weighted_sum us + weighted_sum vs + weighted_sum ws)"
    using merge_tracks [OF merge_tracks [OF A B] C] .
  have R: "tracks (snd (WeightedStats_merge ?A (snd (WeightedStats_merge ?B ?C))))
             (total_weight us + total_weight vs + total_weight ws)
             (weighted_sum us + weighted_sum vs + weighted_sum ws)"
    using merge_tracks [OF A merge_tracks [OF B C]] by (simp add: add.assoc)
  have 1: "fst (WeightedStats_merge ?A ?B)"
    by (simp add: WeightedStats_merge_def evocore_weighted_merge_def Let_def)
  have 2: "mean (snd (WeightedStats_merge ?A ?B)) = mean (updates WeightedStats_init (us @ vs))"
    by (rule tracks_mean_unique [OF AB D])
  have 3: "sum_weights (snd (WeightedStats_merge ?A ?B)) = total_weight (us @ vs)"
    using AB by (simp add: tracks_def)
  have 4: "sum_weights (updates WeightedStats_init (us @ vs)) = total_weight (us @ vs)"
    using D by (simp add: tracks_def)
  have 5: "total_weight (us @ vs) \<noteq> 0 \<longrightarrow>
        mean (snd (WeightedStats_merge ?A ?B)) = weighted_sum (us @ vs) / total_weight (us @ vs)"
    using AB by (simp add: tracks_def)
  have 6: "mean (snd (WeightedStats_merge ?A ?B)) = mean (snd (WeightedStats_merge ?B ?A))"
    by (rule tracks_mean_unique [OF AB BA])
  have 7: "mean (snd (WeightedStats_merge (snd (WeightedStats_merge ?A ?B)) ?C))
         = mean (snd (WeightedStats_merge ?A (snd (WeightedStats_merge ?B ?C))))"
    by (rule tracks_mean_unique [OF L R])
  show ?thesis
    unfolding WeightedStats_mean_def evocore_weighted_mean_def WeightedStats_sum_weights_def
    using 1 2 3 4 5 6 7 by simp
qed

theorem merge_mean_union_witness:
  "total_weight ([(1, 1), (3, 1)] @ [(5, 2)]) \<noteq> 0
   \<and> WeightedStats_mean
        (snd (WeightedStats_merge (updates WeightedStats_init [(1, 1), (3, 1)])
               (updates WeightedStats_init [(5, 2)]))) = 7 / 2
   \<and> WeightedStats_sum_weights
        (snd (WeightedStats_merge (updates WeightedStats_init [(1, 1), (3, 1)])
               (updates WeightedStats_init [(5, 2)]))) = 4"
  using merge_mean_union [of "[(1, 1), (3, 1)]" "[(5, 2)]" "[]"]
  by (simp add: total_weight_def weighted_sum_def accepted_def)

subsection \<open>MetaParams: access by name, to\_dict and from\_dict\<close>

lemma to_size_t_from_size_t: "to_size_t (from_size_t w) = Inr w"
proof -
  have "uint w < 2 ^ 64" using uint_lt2p [of w] by simp
  then show ?thesis by (simp add: to_size_t_def from_size_t_def)
qed

lemma find_attribute_field: "find_attribute (field_name f) = Some (Property f)"
  by (cases f) (simp_all add: find_attribute_def all_fields_def)

lemma setter_getter: "setter f (getter f q) p = Inr (copy_field f q p)"
  by (cases f) (simp_all add: to_double_def to_Bool_def to_size_t_from_size_t)

lemma from_dict_loop_fields:
  "from_dict_loop \<lparr>slot_params = Some p, slot_ffi = a, slot_lib = b\<rparr>
     (map (\<lambda>f. (field_name f, getter f q)) fs)
   = Inr \<lparr>slot_params = Some (foldl (\<lambda>p f. copy_field f q p) p fs), slot_ffi = a, slot_lib = b\<rparr>"
proof (induction fs arbitrary: p)
  case Nil
  then show ?case by simp
next
  case (Cons f fs)
  then show ?case
    by (simp add: hasattr_def setattr_def find_attribute_field setter_getter)
qed

lemma copy_all_fields: "foldl (\<lambda>p f. copy_field f q p) p all_fields = q"
  by (simp add: all_fields_def)

text \<open>
  C9.  For a \<^verbatim>\<open>MetaParams\<close> object that wraps a parameter structure, \<^verbatim>\<open>to_dict\<close> returns the
  25 entries, and \<^verbatim>\<open>from_dict\<close> of that dictionary, whatever the defaults of a new object
  are, returns an object wrapping an equal structure: its \<^verbatim>\<open>to_dict\<close> is the dictionary it
  was made from.
\<close>

theorem from_dict_to_dict:
  "slot_params p = Some q \<Longrightarrow>
   to_dict p = Inr (map (\<lambda>f. (field_name f, getter f q)) all_fields)
   \<and> from_dict defaults (map (\<lambda>f. (field_name f, getter f q)) all_fields) = Inr (MetaParams_init q)
   \<and> to_dict (MetaParams_init q) = to_dict p"
  by (simp add: to_dict_def from_dict_def MetaParams_init_def from_dict_loop_fields copy_all_fields)

lemma map_of_fields_None:
  "map_of (map (\<lambda>f. (field_name f, f)) fs) name = None \<longleftrightarrow> \<not> py_in name (map field_name fs)"
  by (induction fs) auto



lemma check_error_negative: "code < 0 \<Longrightarrow> \<exists>e. check_error code = Inl e"
  by (simp add: check_error_def split: option.splits)







theorem from_dict_to_dict_witness:
  "slot_params (MetaParams_init (params0\<lparr>learning_rate := 1 / 2, negative_capacity := 7\<rparr>))
     = Some (params0\<lparr>learning_rate := 1 / 2, negative_capacity := 7\<rparr>)
   \<and> from_dict params0
        (map (\<lambda>f. (field_name f, getter f (params0\<lparr>learning_rate := 1 / 2, negative_capacity := 7\<rparr>)))
           all_fields)
       = Inr (MetaParams_init (params0\<lparr>learning_rate := 1 / 2, negative_capacity := 7\<rparr>))"
  using from_dict_to_dict [of
          "MetaParams_init (params0\<lparr>learning_rate := 1 / 2, negative_capacity := 7\<rparr>)"
          "params0\<lparr>learning_rate := 1 / 2, negative_capacity := 7\<rparr>" params0]
  by (simp add: MetaParams_init_def)

end
